theory Spec2Isabelle
  imports Main "HOL-Library.Sublist"
begin

section \<open>Python values and strings\<close>

text \<open>
  The executor code lives in \<^verbatim>\<open>src/enhanced_api_executor_fixes.py\<close>, as the text of
  \<^verbatim>\<open>execute_custom_api\<close>, \<^verbatim>\<open>node_api_exec\<close> and \<^verbatim>\<open>execute_api_request\<close>.
  JSON-compatible Python values are a datatype; Python's \<^verbatim>\<open>None\<close> is \<open>JNull\<close>. A dict is
  an association list in insertion order. Numbers are Python ints (floats are outside
  the model), and strings are lists of characters below 256, with \<^verbatim>\<open>upper\<close> and
  \<^verbatim>\<open>lower\<close> acting on the ASCII letters.
\<close>

datatype json =
    JNull
  | JBool bool
  | JNum int
  | JStr string
  | JArr "json list"
  | JObj "(string \<times> json) list"

type_synonym str_dict = "(string \<times> string) list"

text \<open>Python truthiness, as \<^verbatim>\<open>if x:\<close> and \<^verbatim>\<open>not x\<close> read a value.\<close>

fun truthy :: "json \<Rightarrow> bool" where
  "truthy JNull = False"
| "truthy (JBool b) = b"
| "truthy (JNum n) = (n \<noteq> 0)"
| "truthy (JStr s) = (s \<noteq> [])"
| "truthy (JArr xs) = (xs \<noteq> [])"
| "truthy (JObj kvs) = (kvs \<noteq> [])"

text \<open>\<^verbatim>\<open>str.upper()\<close> and \<^verbatim>\<open>str.lower()\<close> on ASCII text.\<close>

definition upper_char :: "char \<Rightarrow> char" where
  "upper_char c =
     (case map_of (zip ''abcdefghijklmnopqrstuvwxyz'' ''ABCDEFGHIJKLMNOPQRSTUVWXYZ'') c of
        Some u \<Rightarrow> u
      | None \<Rightarrow> c)"

definition lower_char :: "char \<Rightarrow> char" where
  "lower_char c =
     (case map_of (zip ''ABCDEFGHIJKLMNOPQRSTUVWXYZ'' ''abcdefghijklmnopqrstuvwxyz'') c of
        Some l \<Rightarrow> l
      | None \<Rightarrow> c)"

definition upper :: "string \<Rightarrow> string" where
  "upper s = map upper_char s"

definition lower :: "string \<Rightarrow> string" where
  "lower s = map lower_char s"

text \<open>\<^verbatim>\<open>str(n)\<close> for a Python int.\<close>

definition digit_char :: "nat \<Rightarrow> char" where
  "digit_char d = ''0123456789'' ! d"

fun nat_digits :: "nat \<Rightarrow> string" where
  "nat_digits n =
     (if n < 10 then [digit_char n] else nat_digits (n div 10) @ [digit_char (n mod 10)])"

definition int_str :: "int \<Rightarrow> string" where
  "int_str i = (if i < 0 then CHR ''-'' # nat_digits (nat (- i)) else nat_digits (nat i))"

text \<open>
  \<^verbatim>\<open>str(req.body)\<close> for the bodies that reach it: \<^verbatim>\<open>execute_custom_api\<close> converts
  only a body that is neither \<^verbatim>\<open>None\<close> nor a dict nor a list.
\<close>

fun scalar_str :: "json \<Rightarrow> string option" where
  "scalar_str (JStr s) = Some s"
| "scalar_str (JBool b) = Some (if b then ''True'' else ''False'')"
| "scalar_str (JNum n) = Some (int_str n)"
| "scalar_str JNull = None"
| "scalar_str (JArr xs) = None"
| "scalar_str (JObj kvs) = None"

text \<open>\<^verbatim>\<open>d[k] = v\<close> on a dict known not to hold \<open>k\<close> appends the entry.\<close>

definition has_key :: "string \<Rightarrow> (string \<times> 'v) list \<Rightarrow> bool" where
  "has_key k d = (k \<in> set (map fst d))"

definition set_default :: "string \<Rightarrow> 'v \<Rightarrow> (string \<times> 'v) list \<Rightarrow> (string \<times> 'v) list" where
  "set_default k v d = (if has_key k d then d else d @ [(k, v)])"

text \<open>A dict of strings read as a JSON object, as \<^verbatim>\<open>json=params\<close> sends it.\<close>

definition params_json :: "str_dict \<Rightarrow> json" where
  "params_json params = JObj (map (\<lambda>(k, v). (k, JStr v)) params)"

section \<open>The HTTP transport\<close>

text \<open>
  The call handed to \<^verbatim>\<open>requests.get\<close> or \<^verbatim>\<open>requests.request\<close>: its keyword arguments.
  \<open>call_json = JNull\<close> and \<open>call_data = None\<close> are the absent \<^verbatim>\<open>json=\<close> and
  \<^verbatim>\<open>data=\<close> arguments; \<open>call_params = None\<close> is \<^verbatim>\<open>params=None\<close>.
\<close>

record http_call =
  verb :: string
  call_url :: string
  call_params :: "str_dict option"
  call_headers :: str_dict
  call_json :: json
  call_data :: "string option"
  call_timeout :: nat
  allow_redirects :: bool

text \<open>
  The \<^verbatim>\<open>requests.Response\<close> fields the executor reads. \<open>resp_json = None\<close> is a
  payload on which \<^verbatim>\<open>r.json()\<close> raises.
\<close>

record response =
  status_code :: int
  resp_url :: string
  resp_headers :: str_dict
  resp_json :: "json option"
  resp_text :: string

text \<open>
  \<^verbatim>\<open>Response.ok\<close> of the requests library: true unless \<^verbatim>\<open>raise_for_status()\<close> raises,
  which it does for a status code from 400 up to 599.
\<close>

definition ok :: "response \<Rightarrow> bool" where
  "ok r = (\<not> (400 \<le> status_code r \<and> status_code r < 600))"

text \<open>
  The exceptions the executor tells apart, each with its message (\<^verbatim>\<open>str(e)\<close>).
  \<open>Timeout\<close> and \<open>ConnectionError\<close> are those of \<^verbatim>\<open>requests.exceptions\<close>;
  \<open>RequestException\<close> is any other exception of that library; \<open>UnboundLocalError\<close>
  carries the name of the variable read before assignment.
\<close>

datatype py_exc =
    Timeout string
  | ConnectionError string
  | RequestException string
  | UnboundLocalError string
  | OtherException string

fun exc_str :: "py_exc \<Rightarrow> string" where
  "exc_str (Timeout m) = m"
| "exc_str (ConnectionError m) = m"
| "exc_str (RequestException m) = m"
| "exc_str (UnboundLocalError v) =
     ''cannot access local variable '' @ [CHR 0x27] @ v @ [CHR 0x27]
       @ '' where it is not associated with a value''"
| "exc_str (OtherException m) = m"

text \<open>
  The network is a parameter: a transport answers a call with a response or raises.
  Every executor returns, beside its result, the list of calls it handed to the
  transport.
\<close>

type_synonym transport = "http_call \<Rightarrow> py_exc + response"

definition get_call :: "string \<Rightarrow> str_dict option \<Rightarrow> str_dict \<Rightarrow> http_call" where
  "get_call u params hdrs =
     \<lparr>verb = ''GET'', call_url = u, call_params = params, call_headers = hdrs,
      call_json = JNull, call_data = None, call_timeout = 30, allow_redirects = True\<rparr>"

definition request_call ::
  "string \<Rightarrow> string \<Rightarrow> json \<Rightarrow> string option \<Rightarrow> str_dict option \<Rightarrow> str_dict \<Rightarrow> http_call" where
  "request_call m u j d params hdrs =
     \<lparr>verb = m, call_url = u, call_params = params, call_headers = hdrs,
      call_json = j, call_data = d, call_timeout = 30, allow_redirects = True\<rparr>"


section \<open>Requests and results\<close>

text \<open>
  The keys of the \<^verbatim>\<open>request_data\<close> dict that \<^verbatim>\<open>execute_api_request\<close> reads; an absent
  key is \<open>None\<close>.
\<close>

record api_request =
  base_url :: string
  http_method :: "string option"
  query_params :: "str_dict option"
  headers :: "str_dict option"
  body :: json

text \<open>
  Modelled from the spec: the class \<^verbatim>\<open>CustomApiExecuteRequest\<close> is declared outside
  \<^verbatim>\<open>src/\<close>. Its fields are the attributes \<^verbatim>\<open>execute_custom_api\<close> reads, typed as the
  spec's RequestDescription: the same five entries, and the single extra parameter
  \<open>param_key\<close>, \<open>param_value\<close>.
\<close>

record custom_api_request = api_request +
  param_key :: "string option"
  param_value :: "string option"

text \<open>
  The result dicts. Both executors fill \<open>success\<close>, \<open>status\<close>, \<open>url\<close>, the method and
  one of \<open>data\<close> and \<open>payload_text\<close> (the key \<^verbatim>\<open>"text"\<close>); a key that is not set is
  \<open>None\<close>.
\<close>

record call_result =
  success :: bool
  status :: int
  url :: "string option"
  method_used :: "string option"
  data :: "json option"
  payload_text :: "string option"

record api_result = call_result +
  error :: "string option"

record response_data = call_result +
  response_headers :: str_dict
  content_type :: string
  request_headers :: str_dict
  request_body :: "json option"
  request_params :: "str_dict option"

text \<open>
  What \<^verbatim>\<open>execute_custom_api\<close> raises to its caller: an HTTPException with its status
  and detail, or the ValueError of \<^verbatim>\<open>urlparse\<close>, which is raised before the \<^verbatim>\<open>try\<close>
  block and caught by no handler.
\<close>

datatype raised =
    HTTPException nat string
  | ValueError string

section \<open>\<^verbatim>\<open>execute_api_request\<close>\<close>

text \<open>
  The executor that \<^verbatim>\<open>node_api_exec\<close> calls. Whatever is raised inside its
  \<^verbatim>\<open>try\<close> block ends in the failure dict
  \<^verbatim>\<open>{"success": False, "error": str(e), "status": 0}\<close>.
\<close>

definition failed_result :: "py_exc \<Rightarrow> api_result" where
  "failed_result e =
     \<lparr>success = False, status = 0, url = None, method_used = None, data = None,
      payload_text = None, error = Some (exc_str e)\<rparr>"

text \<open>The call that \<^verbatim>\<open>execute_api_request\<close> makes: its branch on the method.\<close>

definition api_call :: "'a api_request_scheme \<Rightarrow> http_call" where
  "api_call request_data =
     (let m = upper (case http_method request_data of None \<Rightarrow> ''GET'' | Some x \<Rightarrow> x);
          u = base_url request_data;
          hdrs0 = (case headers request_data of None \<Rightarrow> [] | Some h \<Rightarrow> h);
          params = (case query_params request_data of None \<Rightarrow> [] | Some p \<Rightarrow> p);
          b = body request_data;
          hdrs = set_default ''User-Agent'' ''Multi-Agent-Chatbot/1.0'' hdrs0
      in if m = ''GET'' then get_call u (Some params) hdrs
         else if m \<in> {''POST'', ''PUT'', ''PATCH'', ''DELETE''}
           then request_call m u b None (Some params) hdrs
         else get_call u (Some params) hdrs)"

definition execute_api_request ::
  "transport \<Rightarrow> 'a api_request_scheme \<Rightarrow> api_result \<times> http_call list" where
  "execute_api_request transport request_data =
     (let m = upper (case http_method request_data of None \<Rightarrow> ''GET'' | Some x \<Rightarrow> x);
          call = api_call request_data
      in case transport call of
           Inl e \<Rightarrow> (failed_result e, [call])
         | Inr r \<Rightarrow>
             (\<lparr>success = ok r, status = status_code r, url = Some (resp_url r),
               method_used = Some m, data = resp_json r,
               payload_text = (case resp_json r of None \<Rightarrow> Some (resp_text r) | Some j \<Rightarrow> None),
               error = None\<rparr>,
              [call]))"

section \<open>\<^verbatim>\<open>execute_custom_api\<close>\<close>

text \<open>
  The request body of a POST, PUT, PATCH or DELETE: the pair
  \<^verbatim>\<open>(json_body, data_param)\<close>. \<open>json_loads\<close> is \<^verbatim>\<open>json.loads\<close>, with \<open>None\<close> for a
  text on which it raises.
\<close>

definition body_payload ::
  "(string \<Rightarrow> json option) \<Rightarrow> json \<Rightarrow> str_dict \<Rightarrow> json \<times> string option" where
  "body_payload json_loads b params =
     (if b \<noteq> JNull then
        (case scalar_str b of
           None \<Rightarrow> (b, None)
         | Some s \<Rightarrow>
             (case json_loads s of
                Some j \<Rightarrow> (j, None)
              | None \<Rightarrow> (JNull, Some s)))
      else (if params \<noteq> [] then params_json params else JNull, None))"

text \<open>The \<^verbatim>\<open>except\<close> clauses of \<^verbatim>\<open>execute_custom_api\<close>, in their order.\<close>

fun on_exception :: "py_exc \<Rightarrow> raised" where
  "on_exception (Timeout m) = HTTPException 408 ''API request timed out''"
| "on_exception (ConnectionError m) = HTTPException 502 ''Failed to connect to API endpoint''"
| "on_exception (RequestException m) = HTTPException 502 (''API request failed: '' @ m)"
| "on_exception e = HTTPException 500 (''Internal error: '' @ exc_str e)"

text \<open>
  The locals that \<^verbatim>\<open>execute_custom_api\<close> computes before the call: \<^verbatim>\<open>params\<close>
  (the query parameters with the single extra parameter merged in), \<^verbatim>\<open>method\<close>
  (\<^verbatim>\<open>(req.method or "GET").upper()\<close>) and \<^verbatim>\<open>headers\<close> (with the default
  \<^verbatim>\<open>Content-Type\<close> and \<^verbatim>\<open>User-Agent\<close>).
\<close>

definition merged_params :: "custom_api_request \<Rightarrow> str_dict" where
  "merged_params req =
     (let params = (case query_params req of None \<Rightarrow> [] | Some p \<Rightarrow> p)
      in case (param_key req, param_value req) of
           (Some k, Some v) \<Rightarrow>
             if k \<noteq> [] \<and> v \<noteq> [] \<and> \<not> has_key k params then params @ [(k, v)] else params
         | _ \<Rightarrow> params)"

definition method_of :: "custom_api_request \<Rightarrow> string" where
  "method_of req =
     upper (case http_method req of None \<Rightarrow> ''GET'' | Some x \<Rightarrow> if x = [] then ''GET'' else x)"

definition headers_of :: "custom_api_request \<Rightarrow> str_dict" where
  "headers_of req =
     (let hdrs = (case headers req of None \<Rightarrow> [] | Some h \<Rightarrow> h);
          hdrs1 =
            (if method_of req \<in> {''POST'', ''PUT'', ''PATCH''} \<and> truthy (body req)
             then set_default ''Content-Type'' ''application/json'' hdrs
             else hdrs)
      in set_default ''User-Agent'' ''Multi-Agent-Chatbot/1.0'' hdrs1)"

text \<open>
  The branch on the method: the call that is made, and the value of the local
  \<^verbatim>\<open>json_body\<close> afterwards. The variable is assigned in the POST/PUT/PATCH/DELETE
  branch only; \<open>None\<close> is the unbound variable.
\<close>

definition method_branch ::
  "(string \<Rightarrow> json option) \<Rightarrow> custom_api_request \<Rightarrow> http_call \<times> json option" where
  "method_branch json_loads req =
     (let params = merged_params req;
          m = method_of req;
          hdrs = headers_of req;
          params_or_none = (if params \<noteq> [] then Some params else None)
      in if m = ''GET'' then (get_call (base_url req) params_or_none hdrs, None)
         else if m \<in> {''POST'', ''PUT'', ''PATCH'', ''DELETE''} then
           (let (json_body, data_param) = body_payload json_loads (body req) params
            in (request_call m (base_url req) json_body data_param
                  (if m = ''DELETE'' \<and> \<not> truthy json_body then Some params else None)
                  hdrs,
                Some json_body))
         else (get_call (base_url req) params_or_none hdrs, None))"

text \<open>
  \<open>urlparse_scheme\<close> is \<^verbatim>\<open>urllib.parse.urlparse\<close> followed by the read of \<^verbatim>\<open>.scheme\<close>:
  \<open>Inr\<close> the scheme, or \<open>Inl\<close> the message of the ValueError that \<^verbatim>\<open>urlparse\<close> raises
  on a URL it cannot split. The parse stands before the \<^verbatim>\<open>try\<close> block, so that
  ValueError reaches the caller as it is.
  After the response is read, \<^verbatim>\<open>if json_body:\<close> on the unbound variable raises
  UnboundLocalError inside the \<^verbatim>\<open>try\<close> block, which the last \<^verbatim>\<open>except\<close> clause
  turns into an HTTPException with status 500.
\<close>

definition execute_custom_api ::
  "(string \<Rightarrow> string + string) \<Rightarrow> (string \<Rightarrow> json option) \<Rightarrow> transport
     \<Rightarrow> custom_api_request \<Rightarrow> (raised + response_data) \<times> http_call list" where
  "execute_custom_api urlparse_scheme json_loads transport req =
     (case urlparse_scheme (base_url req) of
        Inl msg \<Rightarrow> (Inl (ValueError msg), [])
      | Inr scheme \<Rightarrow>
      if scheme \<notin> {''http'', ''https''}
      then (Inl (HTTPException 400 ''Only http/https URLs are allowed''), [])
      else
        (let params = merged_params req;
             (call, jb) = method_branch json_loads req
         in case transport call of
              Inl e \<Rightarrow> (Inl (on_exception e), [call])
            | Inr r \<Rightarrow>
                (case jb of
                   None \<Rightarrow> (Inl (on_exception (UnboundLocalError ''json_body'')), [call])
                 | Some json_body \<Rightarrow>
                     (Inr \<lparr>success = ok r, status = status_code r, url = Some (resp_url r),
                           method_used = Some (method_of req), data = resp_json r,
                           payload_text =
                             (case resp_json r of None \<Rightarrow> Some (resp_text r) | Some j \<Rightarrow> None),
                           response_headers = resp_headers r,
                           content_type =
                             (case resp_json r of None \<Rightarrow> ''text'' | Some j \<Rightarrow> ''json''),
                           request_headers = headers_of req,
                           request_body = (if truthy json_body then Some json_body else None),
                           request_params = (if params \<noteq> [] then Some params else None)\<rparr>,
                      [call]))))"

section \<open>\<^verbatim>\<open>node_api_exec\<close>: intent detection and direct execution\<close>

text \<open>
  A chat message: \<^verbatim>\<open>content\<close>, when the object has one, and the \<^verbatim>\<open>type\<close> and
  \<^verbatim>\<open>role\<close> attributes, when present.
\<close>

record message =
  content :: "string option"
  msg_type :: "string option"
  msg_role :: "string option"

definition type_of_msg :: "message \<Rightarrow> string" where
  "type_of_msg msg =
     (case msg_type msg of
        Some t \<Rightarrow> t
      | None \<Rightarrow> (case msg_role msg of Some r \<Rightarrow> r | None \<Rightarrow> ''unknown''))"

text \<open>The loop over \<^verbatim>\<open>state["messages"]\<close>: the last human or user content wins.\<close>

fun user_message :: "string \<Rightarrow> message list \<Rightarrow> string" where
  "user_message user_msg [] = user_msg"
| "user_message user_msg (msg # msgs) =
     (case content msg of
        None \<Rightarrow> user_message user_msg msgs
      | Some c \<Rightarrow>
          if type_of_msg msg \<in> {''human'', ''user''} then user_message c msgs
          else user_message user_msg msgs)"

text \<open>
  The dict \<^verbatim>\<open>api_keywords\<close>, in the order of its literal: Python iterates a dict in
  insertion order.
\<close>

definition api_keywords :: "(string \<times> string list) list" where
  "api_keywords =
     [(''put'', [''put'', ''update'', ''modify'', ''change'', ''edit'']),
      (''post'', [''post'', ''create'', ''add'', ''submit'', ''send'']),
      (''patch'', [''patch'', ''partial'', ''modify'']),
      (''delete'', [''delete'', ''remove'', ''destroy'']),
      (''get'', [''get'', ''fetch'', ''retrieve'', ''read''])]"

text \<open>
  \<^verbatim>\<open>keyword in user_msg.lower()\<close> is containment as a contiguous run of
  characters: \<open>sublist\<close>. The loop stops at the first entry one of whose keywords
  occurs.
\<close>

fun detect_loop :: "(string \<times> string list) list \<Rightarrow> string \<Rightarrow> string option" where
  "detect_loop [] user_msg = None"
| "detect_loop ((m, keywords) # rest) user_msg =
     (if list_ex (\<lambda>keyword. sublist keyword (lower user_msg)) keywords then Some (upper m)
      else detect_loop rest user_msg)"

definition detected_method :: "string \<Rightarrow> string option" where
  "detected_method user_msg = detect_loop api_keywords user_msg"

text \<open>
  \<^verbatim>\<open>re.findall\<close> for a pattern given by its match at the start of a text: matches are
  taken left to right and do not overlap.
\<close>

function findall :: "(string \<Rightarrow> string option) \<Rightarrow> string \<Rightarrow> string list" where
  "findall match_at [] = []"
| "findall match_at (c # cs) =
     (case match_at (c # cs) of
        None \<Rightarrow> findall match_at cs
      | Some w \<Rightarrow>
          if w = [] then w # findall match_at cs
          else w # findall match_at (drop (length w) (c # cs)))"
  by pat_completeness auto
termination
  by (relation "measure (\<lambda>(match_at, s). length s)") auto

text \<open>
  The pattern \<^verbatim>\<open>https?://[^\s<>"{}|\^`\[\]]+\<close>. \<open>is_space\<close> is the class
  \<^verbatim>\<open>\s\<close> on the characters below 256.
\<close>

definition is_space :: "char \<Rightarrow> bool" where
  "is_space c =
     (c \<in> {CHR 0x09, CHR 0x0A, CHR 0x0B, CHR 0x0C, CHR 0x0D, CHR 0x1C, CHR 0x1D, CHR 0x1E,
           CHR 0x1F, CHR 0x20, CHR 0x85, CHR 0xA0})"

definition url_char :: "char \<Rightarrow> bool" where
  "url_char c =
     (\<not> is_space c \<and>
      c \<notin> {CHR ''<'', CHR ''>'', CHR 0x22, CHR ''{'', CHR ''}'', CHR ''|'', CHR ''^'', CHR 0x60,
           CHR ''['', CHR '']''})"

definition match_url_at :: "string \<Rightarrow> string option" where
  "match_url_at s =
     (let start =
            (if prefix ''https://'' s then Some ''https://''
             else if prefix ''http://'' s then Some ''http://''
             else None)
      in case start of
           None \<Rightarrow> None
         | Some p \<Rightarrow>
             (let rest = takeWhile url_char (drop (length p) s)
              in if rest = [] then None else Some (p @ rest)))"

text \<open>The pattern \<^verbatim>\<open>\{[^{}]*\}\<close>: a brace group with no brace inside.\<close>

definition match_json_at :: "string \<Rightarrow> string option" where
  "match_json_at s =
     (case s of
        [] \<Rightarrow> None
      | c # cs \<Rightarrow>
          if c = CHR ''{'' then
            (let inner = takeWhile (\<lambda>x. x \<noteq> CHR ''{'' \<and> x \<noteq> CHR ''}'') cs
             in case drop (length inner) cs of
                  [] \<Rightarrow> None
                | d # ds \<Rightarrow> if d = CHR ''}'' then Some (c # inner @ [d]) else None)
          else None)"

text \<open>
  The body that \<^verbatim>\<open>node_api_exec\<close> puts into \<^verbatim>\<open>request_data\<close>: the first brace group
  of the message when \<^verbatim>\<open>json.loads\<close> accepts it, and otherwise, or when that value is
  falsy, the placeholder of the method. \<open>now\<close> is the reading of \<^verbatim>\<open>time.time()\<close>.
\<close>

definition extracted_body :: "(string \<Rightarrow> json option) \<Rightarrow> string \<Rightarrow> json" where
  "extracted_body json_loads user_msg =
     (case findall match_json_at user_msg of
        [] \<Rightarrow> JNull
      | w # ws \<Rightarrow> (case json_loads w of Some j \<Rightarrow> j | None \<Rightarrow> JNull))"

definition request_body_for :: "(string \<Rightarrow> json option) \<Rightarrow> int \<Rightarrow> string \<Rightarrow> string \<Rightarrow> json" where
  "request_body_for json_loads now m user_msg =
     (if m \<in> {''PUT'', ''POST'', ''PATCH''} then
        (let b = extracted_body json_loads user_msg
         in if \<not> truthy b then
              (if m = ''PUT'' then JObj [(''updated'', JBool True), (''timestamp'', JNum now)]
               else if m = ''POST'' then JObj [(''created'', JBool True), (''timestamp'', JNum now)]
               else if m = ''PATCH'' then JObj [(''patched'', JBool True), (''timestamp'', JNum now)]
               else b)
            else b)
      else JNull)"

text \<open>
  The direct-execution path of \<^verbatim>\<open>node_api_exec\<close>, up to the call of
  \<^verbatim>\<open>execute_api_request\<close>: \<open>Executed\<close> holds the request handed over and the result
  that came back. The rendering of the result as a chat message is left out, and so
  are the paths taken when no URL or no method is found (the flow manager, the
  router and the tool-calling model, none of them in \<^verbatim>\<open>src/\<close>): \<open>NotDirect\<close> keeps
  the detected method they are given.
\<close>

datatype node_outcome =
    Executed api_request api_result
  | NotDirect "string option"

definition node_api_exec ::
  "(string \<Rightarrow> json option) \<Rightarrow> int \<Rightarrow> transport \<Rightarrow> message list
     \<Rightarrow> node_outcome \<times> http_call list" where
  "node_api_exec json_loads now transport messages =
     (let user_msg = user_message [] messages;
          urls = findall match_url_at user_msg
      in case (urls, detected_method user_msg) of
           (api_url # other_urls, Some m) \<Rightarrow>
             (let request_data =
                    \<lparr>base_url = api_url, http_method = Some m, query_params = Some [],
                     headers = Some [(''Content-Type'', ''application/json'')],
                     body = request_body_for json_loads now m user_msg\<rparr>;
                  (response, calls) = execute_api_request transport request_data
              in (Executed request_data response, calls))
         | (u, d) \<Rightarrow> (NotDirect d, []))"

section \<open>Library functions and servers for concrete runs\<close>

text \<open>
  The theorems below hold for every \<open>urlparse_scheme\<close>, \<open>json_loads\<close> and transport.
  The concrete runs need instances. \<open>url_scheme\<close> follows \<^verbatim>\<open>urllib.parse.urlsplit\<close>:
  leading blanks and control characters are stripped and every tab, carriage return
  and line feed is removed; the scheme is the text before the first colon,
  lower-cased, when it starts with a letter and holds only letters, digits, \<^verbatim>\<open>+\<close>,
  \<^verbatim>\<open>-\<close> and \<^verbatim>\<open>.\<close>, and empty otherwise; when \<^verbatim>\<open>//\<close> follows, the host part runs up
  to the first of \<^verbatim>\<open>/\<close>, \<^verbatim>\<open>?\<close> and \<^verbatim>\<open>#\<close>, and one bracket in it without the other
  raises ValueError("Invalid IPv6 URL"). What \<^verbatim>\<open>urlsplit\<close> checks further in a host
  with both brackets, or with characters beyond ASCII, is left out: no run has such
  a host.
\<close>

definition ascii_letters :: string where
  "ascii_letters = ''abcdefghijklmnopqrstuvwxyzABCDEFGHIJKLMNOPQRSTUVWXYZ''"

definition scheme_chars :: string where
  "scheme_chars = ascii_letters @ ''0123456789+-.''"

definition url_scheme :: "string \<Rightarrow> string + string" where
  "url_scheme u0 =
     (let u = filter (\<lambda>c. c \<notin> {CHR 0x09, CHR 0x0A, CHR 0x0D})
                (dropWhile (\<lambda>c. (of_char c :: nat) \<le> 32) u0);
          p = takeWhile (\<lambda>c. c \<noteq> CHR '':'') u;
          found = (p \<noteq> [] \<and> length p < length u \<and> hd p \<in> set ascii_letters
                     \<and> list_all (\<lambda>c. c \<in> set scheme_chars) p);
          scheme = (if found then lower p else []);
          rest = (if found then drop (length p + 1) u else u);
          netloc = takeWhile (\<lambda>c. c \<notin> {CHR ''/'', CHR ''?'', CHR ''#''}) (drop 2 rest)
      in if take 2 rest = ''//''
            \<and> (CHR ''['' \<in> set netloc) \<noteq> (CHR '']'' \<in> set netloc)
         then Inl ''Invalid IPv6 URL''
         else Inr scheme)"

text \<open>
  \<^verbatim>\<open>json.loads\<close> on the texts of the concrete runs: the four JSON texts of the table,
  and \<^verbatim>\<open>hello\<close>, which is not JSON. No run gives it another text.
\<close>

definition loads_table :: "string \<Rightarrow> json option" where
  "loads_table s =
     map_of [(''{}'', JObj []), (''[1, 2]'', JArr [JNum 1, JNum 2]), (''7'', JNum 7),
             (''null'', JNull)] s"

text \<open>
  A server that answers every call with the given status and payload, and one that
  never answers: the call raises.
\<close>

definition answering :: "int \<Rightarrow> json option \<Rightarrow> string \<Rightarrow> transport" where
  "answering st j t =
     (\<lambda>c. Inr \<lparr>status_code = st, resp_url = call_url c, resp_headers = [],
                resp_json = j, resp_text = t\<rparr>)"

definition raising :: "py_exc \<Rightarrow> transport" where
  "raising e = (\<lambda>c. Inl e)"

section \<open>The spec's words, for comparison with the code\<close>

text \<open>
  The tie-break as the spec states it: the method categories are tried in the order
  PUT, POST, PATCH, DELETE, GET, and the first category with any keyword match is
  taken. A category's keywords are its entry in \<open>api_keywords\<close>.
\<close>

definition priority_order :: "string list" where
  "priority_order = [''PUT'', ''POST'', ''PATCH'', ''DELETE'', ''GET'']"

definition category_keywords :: "string \<Rightarrow> string list" where
  "category_keywords category =
     (case map_of api_keywords (lower category) of None \<Rightarrow> [] | Some keywords \<Rightarrow> keywords)"

definition category_matches :: "string \<Rightarrow> string \<Rightarrow> bool" where
  "category_matches utterance category =
     list_ex (\<lambda>keyword. sublist keyword (lower utterance)) (category_keywords category)"

definition first_match_in_priority_order :: "string \<Rightarrow> string option" where
  "first_match_in_priority_order utterance =
     find (category_matches utterance) priority_order"

text \<open>
  The placeholder body as the spec states it: \<^verbatim>\<open>{"updated": true, "timestamp": now}\<close>
  for PUT, with \<^verbatim>\<open>created\<close> for POST and \<^verbatim>\<open>patched\<close> for PATCH.
\<close>

definition placeholder_flag :: "string \<Rightarrow> string" where
  "placeholder_flag m =
     (if m = ''PUT'' then ''updated'' else if m = ''POST'' then ''created'' else ''patched'')"

definition placeholder_body :: "string \<Rightarrow> int \<Rightarrow> json" where
  "placeholder_body m now =
     JObj [(placeholder_flag m, JBool True), (''timestamp'', JNum now)]"

text \<open>
  The words of an utterance, as \<^verbatim>\<open>str.split()\<close> cuts them at blanks, and the
  method-intent words: every keyword of the lexicon.
\<close>

fun split_words :: "string \<Rightarrow> string \<Rightarrow> string list" where
  "split_words w [] = (if w = [] then [] else [w])"
| "split_words w (c # cs) =
     (if is_space c then (if w = [] then split_words [] cs else w # split_words [] cs)
      else split_words (w @ [c]) cs)"

definition method_words :: "string list" where
  "method_words = concat (map snd api_keywords)"

definition has_method_word :: "string \<Rightarrow> bool" where
  "has_method_word utterance =
     list_ex (\<lambda>w. w \<in> set method_words) (split_words [] (lower utterance))"

section \<open>The calls and results of the two executors\<close>

lemma api_request_calls:
  "snd (execute_api_request transport rd) = [api_call rd]"
  by (simp add: execute_api_request_def Let_def split: sum.split)

lemma api_request_result:
  "fst (execute_api_request transport rd) =
     (case transport (api_call rd) of
        Inl e \<Rightarrow> failed_result e
      | Inr r \<Rightarrow>
          \<lparr>success = ok r, status = status_code r, url = Some (resp_url r),
           method_used =
             Some (upper (case http_method rd of None \<Rightarrow> ''GET'' | Some x \<Rightarrow> x)),
           data = resp_json r,
           payload_text = (case resp_json r of None \<Rightarrow> Some (resp_text r) | Some j \<Rightarrow> None),
           error = None\<rparr>)"
  by (simp add: execute_api_request_def Let_def split: sum.split)

lemma api_call_get:
  assumes "upper (case http_method rd of None \<Rightarrow> ''GET'' | Some x \<Rightarrow> x)
             \<notin> {''POST'', ''PUT'', ''PATCH'', ''DELETE''}"
  shows "api_call rd =
           get_call (base_url rd) (Some (case query_params rd of None \<Rightarrow> [] | Some p \<Rightarrow> p))
             (set_default ''User-Agent'' ''Multi-Agent-Chatbot/1.0''
                (case headers rd of None \<Rightarrow> [] | Some h \<Rightarrow> h))"
  using assms by (simp add: api_call_def Let_def)

lemma api_call_body:
  assumes "upper (case http_method rd of None \<Rightarrow> ''GET'' | Some x \<Rightarrow> x)
             \<in> {''POST'', ''PUT'', ''PATCH'', ''DELETE''}"
  shows "api_call rd =
           request_call (upper (case http_method rd of None \<Rightarrow> ''GET'' | Some x \<Rightarrow> x))
             (base_url rd) (body rd) None
             (Some (case query_params rd of None \<Rightarrow> [] | Some p \<Rightarrow> p))
             (set_default ''User-Agent'' ''Multi-Agent-Chatbot/1.0''
                (case headers rd of None \<Rightarrow> [] | Some h \<Rightarrow> h))"
  using assms by (auto simp add: api_call_def Let_def)

lemma custom_api_calls:
  "snd (execute_custom_api urlparse_scheme json_loads transport req) =
     (if urlparse_scheme (base_url req) \<in> {Inr ''http'', Inr ''https''}
      then [fst (method_branch json_loads req)] else [])"
  by (simp add: execute_custom_api_def Let_def split_beta split: sum.split option.split)

lemma custom_api_result:
  assumes "urlparse_scheme (base_url req) \<in> {Inr ''http'', Inr ''https''}"
  shows "fst (execute_custom_api urlparse_scheme json_loads transport req) =
     (case transport (fst (method_branch json_loads req)) of
        Inl e \<Rightarrow> Inl (on_exception e)
      | Inr r \<Rightarrow>
          (case snd (method_branch json_loads req) of
             None \<Rightarrow> Inl (on_exception (UnboundLocalError ''json_body''))
           | Some json_body \<Rightarrow>
               Inr \<lparr>success = ok r, status = status_code r, url = Some (resp_url r),
                 method_used = Some (method_of req), data = resp_json r,
                 payload_text =
                   (case resp_json r of None \<Rightarrow> Some (resp_text r) | Some j \<Rightarrow> None),
                 response_headers = resp_headers r,
                 content_type = (case resp_json r of None \<Rightarrow> ''text'' | Some j \<Rightarrow> ''json''),
                 request_headers = headers_of req,
                 request_body = (if truthy json_body then Some json_body else None),
                 request_params =
                   (if merged_params req \<noteq> [] then Some (merged_params req) else None)\<rparr>))"
  using assms
  by (auto simp add: execute_custom_api_def Let_def split_beta split: sum.split option.split)

lemma method_branch_get:
  assumes "method_of req \<notin> {''POST'', ''PUT'', ''PATCH'', ''DELETE''}"
  shows "method_branch json_loads req =
           (get_call (base_url req)
              (if merged_params req \<noteq> [] then Some (merged_params req) else None)
              (headers_of req), None)"
  using assms by (simp add: method_branch_def Let_def)

lemma method_branch_body:
  assumes "method_of req \<in> {''POST'', ''PUT'', ''PATCH'', ''DELETE''}"
  shows "method_branch json_loads req =
           (let p = body_payload json_loads (body req) (merged_params req)
            in (request_call (method_of req) (base_url req) (fst p) (snd p)
                 (if method_of req = ''DELETE'' \<and> \<not> truthy (fst p)
                  then Some (merged_params req) else None)
                 (headers_of req), Some (fst p)))"
  using assms by (auto simp add: method_branch_def Let_def split_beta)

lemma method_of_given:
  assumes "http_method req = Some m" and "upper m = M" and "M \<noteq> []"
  shows "method_of req = M"
  using assms by (auto simp: method_of_def upper_def)

lemma upper_GET: "upper ''GET'' = ''GET''"
  by code_simp

section \<open>URL validation\<close>

lemma scheme_check_outcomes:
  "(urlparse_scheme (base_url req) = Inr scheme \<and> scheme \<notin> {''http'', ''https''} \<longrightarrow>
      execute_custom_api urlparse_scheme json_loads transport req =
        (Inl (HTTPException 400 ''Only http/https URLs are allowed''), []))
   \<and> (urlparse_scheme (base_url req) = Inl msg \<longrightarrow>
      execute_custom_api urlparse_scheme json_loads transport req =
        (Inl (ValueError msg), []))"
  by (simp add: execute_custom_api_def)

text \<open>
  C5. The URL \<^verbatim>\<open>ftp://[bad\<close> has the scheme \<^verbatim>\<open>ftp\<close>, neither \<^verbatim>\<open>http\<close> nor \<^verbatim>\<open>https\<close>,
  and \<^verbatim>\<open>urlparse\<close> raises ValueError on its unclosed bracket: \<^verbatim>\<open>execute_custom_api\<close>
  lets that ValueError through to its caller instead of the HTTPException of status
  400. Nothing reaches the network. The plain URL \<^verbatim>\<open>ftp://example.test/file\<close> is
  rejected with the HTTPException of status 400 and no call, and the lemma
  \<open>scheme_check_outcomes\<close> above shows both outcomes for every request.
\<close>

theorem malformed_url_raises_value_error:
  "execute_custom_api url_scheme loads_table (answering 200 None ''fine'')
     \<lparr>base_url = ''ftp://[bad'', http_method = Some ''GET'', query_params = None,
      headers = None, body = JNull, param_key = None, param_value = None\<rparr>
   = (Inl (ValueError ''Invalid IPv6 URL''), [])
   \<and> execute_custom_api url_scheme loads_table (answering 200 None ''fine'')
     \<lparr>base_url = ''ftp://example.test/file'', http_method = Some ''GET'', query_params = None,
      headers = None, body = JNull, param_key = None, param_value = None\<rparr>
   = (Inl (HTTPException 400 ''Only http/https URLs are allowed''), [])"
  by code_simp

section \<open>GET and unknown methods\<close>

text \<open>
  C6. For a request whose method is GET, in any letter case, every call that either
  executor hands to the transport is a GET with no \<^verbatim>\<open>json=\<close> and no \<^verbatim>\<open>data=\<close>
  argument. \<^verbatim>\<open>execute_api_request\<close> makes one call, \<^verbatim>\<open>execute_custom_api\<close> makes one
  when it accepts the URL, and replacing the body of the request by any other body
  leaves the calls unchanged: only the URL, the query parameters and the headers are
  sent.
\<close>

theorem get_sends_no_body:
  assumes "http_method req = Some m" and "upper m = ''GET''"
  shows "(\<forall>c \<in> set (snd (execute_custom_api urlparse_scheme json_loads transport req))
               \<union> set (snd (execute_api_request transport req)).
            verb c = ''GET'' \<and> call_json c = JNull \<and> call_data c = None)
         \<and> length (snd (execute_api_request transport req)) = 1
         \<and> (urlparse_scheme (base_url req) \<in> {Inr ''http'', Inr ''https''} \<longrightarrow>
              length (snd (execute_custom_api urlparse_scheme json_loads transport req)) = 1)
         \<and> snd (execute_custom_api urlparse_scheme json_loads transport (req\<lparr>body := b\<rparr>))
             = snd (execute_custom_api urlparse_scheme json_loads transport req)
         \<and> snd (execute_api_request transport (req\<lparr>body := b\<rparr>))
             = snd (execute_api_request transport req)"
proof -
  have g: "method_of r = ''GET''" if "http_method r = Some m" for r
    using that assms(2) by (simp add: method_of_given)
  have hb: "headers_of (req\<lparr>body := b\<rparr>) = headers_of req"
    using g [of req] g [of "req\<lparr>body := b\<rparr>"] assms(1) by (simp add: headers_of_def)
  have pb: "merged_params (req\<lparr>body := b\<rparr>) = merged_params req"
    by (simp add: merged_params_def)
  have mb: "method_branch json_loads r =
              (get_call (base_url r)
                 (if merged_params r \<noteq> [] then Some (merged_params r) else None)
                 (headers_of r), None)" if "http_method r = Some m" for r
    using g [OF that] by (simp add: method_branch_get)
  have ac: "api_call r =
              get_call (base_url r) (Some (case query_params r of None \<Rightarrow> [] | Some p \<Rightarrow> p))
                (set_default ''User-Agent'' ''Multi-Agent-Chatbot/1.0''
                   (case headers r of None \<Rightarrow> [] | Some h \<Rightarrow> h))"
    if "http_method r = Some m" for r :: custom_api_request
    using that assms(2) by (simp add: api_call_get)
  show ?thesis
    using assms(1) hb pb mb [of req] mb [of "req\<lparr>body := b\<rparr>"] ac [of req]
      ac [of "req\<lparr>body := b\<rparr>"]
    by (simp add: custom_api_calls api_request_calls get_call_def)
qed

theorem get_sends_no_body_witness:
  "upper ''get'' = ''GET''
   \<and> length (snd (execute_custom_api url_scheme loads_table (answering 200 None ''fine'')
        \<lparr>base_url = ''https://example.test/items'', http_method = Some ''get'',
         query_params = Some [(''page'', ''2'')], headers = None,
         body = JObj [(''title'', JStr ''x'')], param_key = None, param_value = None\<rparr>)) = 1
   \<and> snd (execute_custom_api url_scheme loads_table (answering 200 None ''fine'')
        \<lparr>base_url = ''https://example.test/items'', http_method = Some ''get'',
         query_params = Some [(''page'', ''2'')], headers = None,
         body = JObj [(''title'', JStr ''x'')], param_key = None, param_value = None\<rparr>)
     = [\<lparr>verb = ''GET'', call_url = ''https://example.test/items'',
         call_params = Some [(''page'', ''2'')],
         call_headers = [(''User-Agent'', ''Multi-Agent-Chatbot/1.0'')],
         call_json = JNull, call_data = None, call_timeout = 30, allow_redirects = True\<rparr>]"
proof -
  let ?req = "\<lparr>base_url = ''https://example.test/items'', http_method = Some ''get'',
         query_params = Some [(''page'', ''2'')], headers = None,
         body = JObj [(''title'', JStr ''x'')], param_key = None, param_value = None\<rparr>"
  have u: "upper ''get'' = ''GET''" by code_simp
  have s: "url_scheme ''https://example.test/items'' = Inr ''https''" by code_simp
  note t = get_sends_no_body [where req = ?req and m = "''get''" and urlparse_scheme = url_scheme
      and json_loads = loads_table and transport = "answering 200 None ''fine''"
      and b = JNull, OF _ u]
  have l: "length (snd (execute_custom_api url_scheme loads_table (answering 200 None ''fine'') ?req)) = 1"
    using t s by simp
  have c: "snd (execute_custom_api url_scheme loads_table (answering 200 None ''fine'') ?req)
           = [fst (method_branch loads_table ?req)]"
    using s by (simp add: custom_api_calls)
  have m: "method_of ?req = ''GET''"
    using u by (simp add: method_of_def)
  have b: "fst (method_branch loads_table ?req)
     = \<lparr>verb = ''GET'', call_url = ''https://example.test/items'',
         call_params = Some [(''page'', ''2'')],
         call_headers = [(''User-Agent'', ''Multi-Agent-Chatbot/1.0'')],
         call_json = JNull, call_data = None, call_timeout = 30, allow_redirects = True\<rparr>"
    using m by (simp add: method_branch_get merged_params_def headers_of_def get_call_def
        set_default_def has_key_def)
  show ?thesis using u c b l by simp
qed

lemma method_branch_unknown:
  assumes "http_method req = Some m"
    and "upper m \<notin> {''GET'', ''POST'', ''PUT'', ''PATCH'', ''DELETE''}"
  shows "method_branch json_loads req =
           (get_call (base_url req)
              (if merged_params req \<noteq> [] then Some (merged_params req) else None)
              (headers_of req), None)"
proof -
  have "method_of req = upper m \<or> method_of req = ''GET''"
    using assms(1) by (simp add: method_of_def upper_GET)
  then have "method_of req \<notin> {''POST'', ''PUT'', ''PATCH'', ''DELETE''}"
    using assms(2) by auto
  then show ?thesis by (rule method_branch_get)
qed

lemma unknown_method_custom:
  assumes "http_method req = Some m"
    and "upper m \<notin> {''GET'', ''POST'', ''PUT'', ''PATCH'', ''DELETE''}"
    and "urlparse_scheme (base_url req) \<in> {Inr ''http'', Inr ''https''}"
    and "transport (get_call (base_url req)
              (if merged_params req \<noteq> [] then Some (merged_params req) else None)
              (headers_of req)) = Inr r"
  shows "execute_custom_api urlparse_scheme json_loads transport req =
           (Inl (HTTPException 500
                   (''Internal error: '' @ exc_str (UnboundLocalError ''json_body''))),
            [get_call (base_url req)
              (if merged_params req \<noteq> [] then Some (merged_params req) else None)
              (headers_of req)])"
proof -
  note mb = method_branch_unknown [OF assms(1,2), of json_loads]
  have "fst (execute_custom_api urlparse_scheme json_loads transport req) =
          Inl (HTTPException 500
                   (''Internal error: '' @ exc_str (UnboundLocalError ''json_body'')))"
    using assms(3,4) by (simp add: custom_api_result mb)
  moreover have "snd (execute_custom_api urlparse_scheme json_loads transport req) =
          [get_call (base_url req)
              (if merged_params req \<noteq> [] then Some (merged_params req) else None)
              (headers_of req)]"
    using assms(3) by (simp add: custom_api_calls mb)
  ultimately show ?thesis by (simp add: prod_eq_iff)
qed

lemma unknown_method_api_request:
  assumes "http_method rd = Some m"
    and "upper m \<notin> {''GET'', ''POST'', ''PUT'', ''PATCH'', ''DELETE''}"
  shows "snd (execute_api_request transport rd) =
           [get_call (base_url rd) (Some (case query_params rd of None \<Rightarrow> [] | Some p \<Rightarrow> p))
              (set_default ''User-Agent'' ''Multi-Agent-Chatbot/1.0''
                 (case headers rd of None \<Rightarrow> [] | Some h \<Rightarrow> h))]"
  using assms by (simp add: api_request_calls api_call_get)

text \<open>
  C9. A method that is none of GET, POST, PUT, PATCH, DELETE: at the request with
  method \<^verbatim>\<open>HEAD\<close>, \<^verbatim>\<open>execute_custom_api\<close> issues the fallback GET with the query
  parameters and headers, the server answers 200, and the executor then raises the
  HTTPException of status 500 ("Internal error: ..."), because \<^verbatim>\<open>json_body\<close> is read
  unbound. \<^verbatim>\<open>execute_api_request\<close>, on the same request, issues the same GET and
  returns the successful result. The lemma \<open>unknown_method_custom\<close> above shows the
  same outcome for every such method and every answering server.
\<close>

theorem unknown_method_get_then_internal_error:
  "execute_custom_api url_scheme loads_table (answering 200 (Some (JObj [])) [])
     \<lparr>base_url = ''https://example.test/items'', http_method = Some ''HEAD'',
      query_params = Some [(''page'', ''2'')], headers = None, body = JNull,
      param_key = None, param_value = None\<rparr>
   = (Inl (HTTPException 500 (''Internal error: '' @ exc_str (UnboundLocalError ''json_body''))),
      [\<lparr>verb = ''GET'', call_url = ''https://example.test/items'',
        call_params = Some [(''page'', ''2'')],
        call_headers = [(''User-Agent'', ''Multi-Agent-Chatbot/1.0'')],
        call_json = JNull, call_data = None, call_timeout = 30, allow_redirects = True\<rparr>])
   \<and> execute_api_request (answering 200 (Some (JObj [])) [])
     \<lparr>base_url = ''https://example.test/items'', http_method = Some ''HEAD'',
      query_params = Some [(''page'', ''2'')], headers = None, body = JNull\<rparr>
   = (\<lparr>success = True, status = 200, url = Some ''https://example.test/items'',
       method_used = Some ''HEAD'', data = Some (JObj []), payload_text = None, error = None\<rparr>,
      [\<lparr>verb = ''GET'', call_url = ''https://example.test/items'',
        call_params = Some [(''page'', ''2'')],
        call_headers = [(''User-Agent'', ''Multi-Agent-Chatbot/1.0'')],
        call_json = JNull, call_data = None, call_timeout = 30, allow_redirects = True\<rparr>])"
  by code_simp

section \<open>DELETE without a body\<close>

lemma delete_params_become_body:
  assumes "urlparse_scheme (base_url req) \<in> {Inr ''http'', Inr ''https''}"
    and "method_of req = ''DELETE''" and "body req = JNull" and "merged_params req \<noteq> []"
  shows "snd (execute_custom_api urlparse_scheme json_loads transport req) =
           [request_call ''DELETE'' (base_url req) (params_json (merged_params req)) None None
              (headers_of req)]"
proof -
  have p: "body_payload json_loads JNull (merged_params req)
             = (params_json (merged_params req), None)"
    using assms(4) by (simp add: body_payload_def)
  have t: "truthy (params_json (merged_params req))"
    using assms(4) by (simp add: params_json_def)
  show ?thesis
    using assms(1,2,3) p t by (simp add: custom_api_calls method_branch_body Let_def)
qed

text \<open>
  C1. A DELETE with no body and the query parameter \<^verbatim>\<open>id=7\<close>: the call that
  \<^verbatim>\<open>execute_custom_api\<close> makes carries the parameters as its JSON body and no query
  string (\<^verbatim>\<open>params=None\<close>), while \<^verbatim>\<open>execute_api_request\<close> sends them as the query
  string with no JSON body. The lemma \<open>delete_params_become_body\<close> above shows the
  promotion for every DELETE with no body and some query parameter.
\<close>

theorem delete_params_sent_as_json_body:
  "snd (execute_custom_api url_scheme loads_table (answering 200 (Some (JObj [])) [])
     \<lparr>base_url = ''https://example.test/items'', http_method = Some ''DELETE'',
      query_params = Some [(''id'', ''7'')], headers = None, body = JNull,
      param_key = None, param_value = None\<rparr>)
   = [\<lparr>verb = ''DELETE'', call_url = ''https://example.test/items'',
        call_params = None,
        call_headers = [(''User-Agent'', ''Multi-Agent-Chatbot/1.0'')],
        call_json = JObj [(''id'', JStr ''7'')], call_data = None, call_timeout = 30,
        allow_redirects = True\<rparr>]
   \<and> snd (execute_api_request (answering 200 (Some (JObj [])) [])
     \<lparr>base_url = ''https://example.test/items'', http_method = Some ''DELETE'',
      query_params = Some [(''id'', ''7'')], headers = None, body = JNull\<rparr>)
   = [\<lparr>verb = ''DELETE'', call_url = ''https://example.test/items'',
        call_params = Some [(''id'', ''7'')],
        call_headers = [(''User-Agent'', ''Multi-Agent-Chatbot/1.0'')],
        call_json = JNull, call_data = None, call_timeout = 30, allow_redirects = True\<rparr>]"
  by code_simp

section \<open>Network failures\<close>

text \<open>
  C2, as stated, fails for \<^verbatim>\<open>execute_custom_api\<close>: when the call times out it raises
  the HTTPException of status 408, and when the connection fails that of status 502,
  instead of returning a failed result.
\<close>

theorem timeout_raises_http_exception:
  "fst (execute_custom_api url_scheme loads_table (raising (Timeout ''read timed out''))
     \<lparr>base_url = ''https://example.test/items'', http_method = Some ''POST'',
      query_params = None, headers = None, body = JObj [(''title'', JStr ''x'')],
      param_key = None, param_value = None\<rparr>)
   = Inl (HTTPException 408 ''API request timed out'')
   \<and> fst (execute_custom_api url_scheme loads_table (raising (ConnectionError ''refused''))
     \<lparr>base_url = ''https://example.test/items'', http_method = Some ''POST'',
      query_params = None, headers = None, body = JObj [(''title'', JStr ''x'')],
      param_key = None, param_value = None\<rparr>)
   = Inl (HTTPException 502 ''Failed to connect to API endpoint'')"
  by code_simp

text \<open>
  C2, amended. When the call that \<^verbatim>\<open>execute_api_request\<close> makes raises, whatever the
  exception, the executor returns the failed result with \<open>success = False\<close>,
  \<open>status = 0\<close> and the exception's message as \<open>error\<close>, and raises nothing.
  \<^verbatim>\<open>execute_custom_api\<close>, for a URL it accepts, raises the HTTPException of status 408
  on a timeout and of status 502 on a connection failure.
\<close>

theorem network_failure_outcomes:
  "(transport (api_call rd) = Inl e \<longrightarrow>
      execute_api_request transport rd =
        (\<lparr>success = False, status = 0, url = None, method_used = None, data = None,
          payload_text = None, error = Some (exc_str e)\<rparr>, [api_call rd]))
   \<and> (urlparse_scheme (base_url req) \<in> {Inr ''http'', Inr ''https''}
        \<and> transport (fst (method_branch json_loads req)) = Inl (Timeout msg) \<longrightarrow>
      fst (execute_custom_api urlparse_scheme json_loads transport req) =
        Inl (HTTPException 408 ''API request timed out''))
   \<and> (urlparse_scheme (base_url req) \<in> {Inr ''http'', Inr ''https''}
        \<and> transport (fst (method_branch json_loads req)) = Inl (ConnectionError msg) \<longrightarrow>
      fst (execute_custom_api urlparse_scheme json_loads transport req) =
        Inl (HTTPException 502 ''Failed to connect to API endpoint''))"
proof (intro conjI impI)
  assume "transport (api_call rd) = Inl e"
  then show "execute_api_request transport rd =
        (\<lparr>success = False, status = 0, url = None, method_used = None, data = None,
          payload_text = None, error = Some (exc_str e)\<rparr>, [api_call rd])"
    by (simp add: prod_eq_iff api_request_calls api_request_result failed_result_def)
next
  assume "urlparse_scheme (base_url req) \<in> {Inr ''http'', Inr ''https''}
        \<and> transport (fst (method_branch json_loads req)) = Inl (Timeout msg)"
  then show "fst (execute_custom_api urlparse_scheme json_loads transport req) =
        Inl (HTTPException 408 ''API request timed out'')"
    by (simp add: custom_api_result)
next
  assume "urlparse_scheme (base_url req) \<in> {Inr ''http'', Inr ''https''}
        \<and> transport (fst (method_branch json_loads req)) = Inl (ConnectionError msg)"
  then show "fst (execute_custom_api urlparse_scheme json_loads transport req) =
        Inl (HTTPException 502 ''Failed to connect to API endpoint'')"
    by (simp add: custom_api_result)
qed

theorem network_failure_outcomes_witness:
  "raising (Timeout ''read timed out'')
     (api_call \<lparr>base_url = ''https://example.test/items'', http_method = Some ''PUT'',
        query_params = Some [], headers = None, body = JObj [(''title'', JStr ''x'')]\<rparr>)
     = Inl (Timeout ''read timed out'')
   \<and> execute_api_request (raising (Timeout ''read timed out''))
       \<lparr>base_url = ''https://example.test/items'', http_method = Some ''PUT'',
        query_params = Some [], headers = None, body = JObj [(''title'', JStr ''x'')]\<rparr>
     = (\<lparr>success = False, status = 0, url = None, method_used = None, data = None,
          payload_text = None, error = Some ''read timed out''\<rparr>,
        [\<lparr>verb = ''PUT'', call_url = ''https://example.test/items'', call_params = Some [],
          call_headers = [(''User-Agent'', ''Multi-Agent-Chatbot/1.0'')],
          call_json = JObj [(''title'', JStr ''x'')], call_data = None, call_timeout = 30,
          allow_redirects = True\<rparr>])"
proof -
  let ?rd = "\<lparr>base_url = ''https://example.test/items'', http_method = Some ''PUT'',
        query_params = Some [], headers = None, body = JObj [(''title'', JStr ''x'')]\<rparr>"
  have h: "raising (Timeout ''read timed out'') (api_call ?rd) = Inl (Timeout ''read timed out'')"
    by (simp add: raising_def)
  have c: "api_call ?rd = \<lparr>verb = ''PUT'', call_url = ''https://example.test/items'',
          call_params = Some [],
          call_headers = [(''User-Agent'', ''Multi-Agent-Chatbot/1.0'')],
          call_json = JObj [(''title'', JStr ''x'')], call_data = None, call_timeout = 30,
          allow_redirects = True\<rparr>"
    by code_simp
  show ?thesis
    using h c network_failure_outcomes [where transport = "raising (Timeout ''read timed out'')"
        and rd = ?rd and e = "Timeout ''read timed out''"]
    by simp
qed

section \<open>The success flag\<close>

text \<open>
  C3, as stated, fails: \<^verbatim>\<open>success\<close> is \<^verbatim>\<open>Response.ok\<close>, which is true for every status
  outside 400..599. A response with status 103, or with status 999, gives
  \<open>success = True\<close> although the status is not in [200,400).
\<close>

theorem success_outside_200_to_399:
  "success (fst (execute_api_request (answering 103 None ''early hints'')
      \<lparr>base_url = ''https://example.test/items'', http_method = Some ''GET'',
       query_params = Some [], headers = None, body = JNull\<rparr>))
   \<and> status (fst (execute_api_request (answering 103 None ''early hints'')
      \<lparr>base_url = ''https://example.test/items'', http_method = Some ''GET'',
       query_params = Some [], headers = None, body = JNull\<rparr>)) = 103
   \<and> success (fst (execute_api_request (answering 999 None ''denied'')
      \<lparr>base_url = ''https://example.test/items'', http_method = Some ''GET'',
       query_params = Some [], headers = None, body = JNull\<rparr>))
   \<and> status (fst (execute_api_request (answering 999 None ''denied'')
      \<lparr>base_url = ''https://example.test/items'', http_method = Some ''GET'',
       query_params = Some [], headers = None, body = JNull\<rparr>)) = 999"
  by code_simp

text \<open>
  C3, amended. Whenever the call completes with a response and the executor returns a
  result, the result's \<open>success\<close> is true if and only if the status code is not in
  [400,600), and \<open>status\<close> is the status code; for a status from 200 up to 599 that
  is the range [200,400). \<^verbatim>\<open>execute_api_request\<close> returns a result for every
  response, \<^verbatim>\<open>execute_custom_api\<close> for every response to a POST, PUT, PATCH or DELETE
  at a URL it accepts. The flag does not depend on the payload: replacing the
  response's JSON and text leaves it unchanged.
\<close>

theorem success_follows_status:
  "(transport (api_call rd) = Inr r \<longrightarrow>
      success (fst (execute_api_request transport rd))
        = (\<not> (400 \<le> status_code r \<and> status_code r < 600))
      \<and> status (fst (execute_api_request transport rd)) = status_code r)
   \<and> (urlparse_scheme (base_url req) \<in> {Inr ''http'', Inr ''https''}
        \<and> method_of req \<in> {''POST'', ''PUT'', ''PATCH'', ''DELETE''}
        \<and> transport (fst (method_branch json_loads req)) = Inr r \<longrightarrow>
      (\<exists>res. fst (execute_custom_api urlparse_scheme json_loads transport req) = Inr res
         \<and> success res = (\<not> (400 \<le> status_code r \<and> status_code r < 600))
         \<and> status res = status_code r))
   \<and> success (fst (execute_api_request (\<lambda>c. Inr (r\<lparr>resp_json := j, resp_text := t\<rparr>)) rd))
       = success (fst (execute_api_request (\<lambda>c. Inr r) rd))"
proof (intro conjI impI)
  assume "transport (api_call rd) = Inr r"
  then show "success (fst (execute_api_request transport rd))
        = (\<not> (400 \<le> status_code r \<and> status_code r < 600))"
    and "status (fst (execute_api_request transport rd)) = status_code r"
    by (simp_all add: api_request_result ok_def)
next
  assume a: "urlparse_scheme (base_url req) \<in> {Inr ''http'', Inr ''https''}
        \<and> method_of req \<in> {''POST'', ''PUT'', ''PATCH'', ''DELETE''}
        \<and> transport (fst (method_branch json_loads req)) = Inr r"
  then have s: "snd (method_branch json_loads req)
                 = Some (fst (body_payload json_loads (body req) (merged_params req)))"
    by (simp add: method_branch_body Let_def)
  show "\<exists>res. fst (execute_custom_api urlparse_scheme json_loads transport req) = Inr res
         \<and> success res = (\<not> (400 \<le> status_code r \<and> status_code r < 600))
         \<and> status res = status_code r"
    using a s by (simp add: custom_api_result ok_def)
next
  show "success (fst (execute_api_request (\<lambda>c. Inr (r\<lparr>resp_json := j, resp_text := t\<rparr>)) rd))
       = success (fst (execute_api_request (\<lambda>c. Inr r) rd))"
    by (simp add: api_request_result ok_def)
qed

theorem success_follows_status_witness:
  "url_scheme ''https://example.test/items'' \<in> {Inr ''http'', Inr ''https''}
   \<and> method_of \<lparr>base_url = ''https://example.test/items'', http_method = Some ''post'',
        query_params = None, headers = None, body = JObj [(''title'', JStr ''x'')],
        param_key = None, param_value = None\<rparr> \<in> {''POST'', ''PUT'', ''PATCH'', ''DELETE''}
   \<and> (\<exists>res. fst (execute_custom_api url_scheme loads_table (answering 404 None ''no such item'')
        \<lparr>base_url = ''https://example.test/items'', http_method = Some ''post'',
        query_params = None, headers = None, body = JObj [(''title'', JStr ''x'')],
        param_key = None, param_value = None\<rparr>) = Inr res \<and> \<not> success res \<and> status res = 404)
   \<and> \<not> success (fst (execute_api_request (answering 404 None ''no such item'')
        \<lparr>base_url = ''https://example.test/items'', http_method = Some ''post'',
        query_params = None, headers = None, body = JObj [(''title'', JStr ''x'')],
        param_key = None, param_value = None\<rparr>))"
proof -
  let ?req = "\<lparr>base_url = ''https://example.test/items'', http_method = Some ''post'',
        query_params = None, headers = None, body = JObj [(''title'', JStr ''x'')],
        param_key = None, param_value = None\<rparr>"
  let ?tr = "answering 404 None ''no such item''"
  let ?r = "\<lparr>status_code = 404, resp_url = ''https://example.test/items'', resp_headers = [],
             resp_json = None, resp_text = ''no such item''\<rparr>"
  have h1: "url_scheme (base_url ?req) \<in> {Inr ''http'', Inr ''https''}" by code_simp
  have h2: "method_of ?req \<in> {''POST'', ''PUT'', ''PATCH'', ''DELETE''}" by code_simp
  have h3: "?tr (fst (method_branch loads_table ?req)) = Inr ?r" by code_simp
  have h4: "?tr (api_call ?req) = Inr ?r" by code_simp
  note t = success_follows_status [where transport = ?tr and rd = ?req and req = ?req
      and r = ?r and urlparse_scheme = url_scheme and json_loads = loads_table]
  have a: "\<exists>res. fst (execute_custom_api url_scheme loads_table ?tr ?req) = Inr res
            \<and> \<not> success res \<and> status res = 404"
    using t h1 h2 h3 by simp
  have b: "\<not> success (fst (execute_api_request ?tr ?req))"
    using t h4 by simp
  show ?thesis using h1 h2 a b by simp
qed

section \<open>String bodies\<close>




section \<open>Intent detection\<close>

lemma lower_categories:
  "lower ''PUT'' = ''put''" "lower ''POST'' = ''post''" "lower ''PATCH'' = ''patch''"
  "lower ''DELETE'' = ''delete''" "lower ''GET'' = ''get''"
  by code_simp+

lemma upper_categories:
  "upper ''put'' = ''PUT''" "upper ''post'' = ''POST''" "upper ''patch'' = ''PATCH''"
  "upper ''delete'' = ''DELETE''" "upper ''get'' = ''GET''"
  by code_simp+

text \<open>
  C7. When an utterance matches keywords of several method categories, the method
  detected is the first category, in the order PUT, POST, PATCH, DELETE, GET, one of
  whose keywords occurs in the lower-cased utterance: the loop of \<^verbatim>\<open>node_api_exec\<close>
  computes the spec's first match in priority order for every utterance. In
  particular an utterance that contains both \<^verbatim>\<open>modify\<close> and \<^verbatim>\<open>create\<close> yields PUT.
\<close>

theorem detection_follows_priority_order:
  "detected_method utterance = first_match_in_priority_order utterance
   \<and> (sublist ''modify'' (lower utterance) \<and> sublist ''create'' (lower utterance)
        \<longrightarrow> detected_method utterance = Some ''PUT'')"
proof
  show "detected_method utterance = first_match_in_priority_order utterance"
    by (simp add: detected_method_def first_match_in_priority_order_def api_keywords_def
        priority_order_def category_matches_def category_keywords_def lower_categories
        upper_categories)
  show "sublist ''modify'' (lower utterance) \<and> sublist ''create'' (lower utterance)
        \<longrightarrow> detected_method utterance = Some ''PUT''"
    by (simp add: detected_method_def api_keywords_def upper_categories)
qed

theorem detection_follows_priority_order_witness:
  "sublist ''modify'' (lower ''Modify the draft or create a new one'')
   \<and> sublist ''create'' (lower ''Modify the draft or create a new one'')
   \<and> detected_method ''Modify the draft or create a new one'' = Some ''PUT''
   \<and> first_match_in_priority_order ''Modify the draft or create a new one'' = Some ''PUT''"
proof -
  have h: "sublist ''modify'' (lower ''Modify the draft or create a new one'')
           \<and> sublist ''create'' (lower ''Modify the draft or create a new one'')"
    by code_simp
  note t = detection_follows_priority_order [of "''Modify the draft or create a new one''"]
  have d: "detected_method ''Modify the draft or create a new one'' = Some ''PUT''"
    using t h by blast
  have f: "first_match_in_priority_order ''Modify the draft or create a new one'' = Some ''PUT''"
    using t d by metis
  show ?thesis
    using h d f by blast
qed

text \<open>
  C10. Keyword detection is containment in the lower-cased utterance, not a match of
  whole words: the utterance \<^verbatim>\<open>my computer is slow\<close> has no method-intent word among
  its words, yet \<^verbatim>\<open>computer\<close> contains \<^verbatim>\<open>put\<close> and the method PUT is detected.
\<close>

theorem substring_match_detects_put:
  "detected_method ''my computer is slow'' = Some ''PUT''
   \<and> \<not> has_method_word ''my computer is slow''"
  by code_simp

section \<open>Placeholder bodies\<close>

lemma upper_body_methods:
  "upper ''PUT'' = ''PUT''" "upper ''POST'' = ''POST''" "upper ''PATCH'' = ''PATCH''"
  by code_simp+

lemma request_body_for_placeholder:
  assumes "m \<in> {''PUT'', ''POST'', ''PATCH''}"
    and "case findall match_json_at user_msg of [] \<Rightarrow> True | w # ws \<Rightarrow> json_loads w = None"
  shows "request_body_for json_loads now m user_msg = placeholder_body m now"
proof -
  have "extracted_body json_loads user_msg = JNull"
    using assms(2) by (simp add: extracted_body_def split: list.splits)
  then show ?thesis
    using assms(1)
    by (auto simp: request_body_for_def placeholder_body_def placeholder_flag_def)
qed

text \<open>
  C8. When \<^verbatim>\<open>node_api_exec\<close> detects PUT, POST or PATCH and a URL in the user's
  message, and no body is extracted from it (the message has no brace group, or
  \<^verbatim>\<open>json.loads\<close> raises on the first one), the request handed to
  \<^verbatim>\<open>execute_api_request\<close> carries the placeholder body of the method,
  \<^verbatim>\<open>{"updated": true, "timestamp": now}\<close> for PUT, with \<^verbatim>\<open>created\<close> for POST and
  \<^verbatim>\<open>patched\<close> for PATCH, and the one call that is made sends it as its JSON body.
\<close>

theorem placeholder_body_attached:
  assumes "detected_method (user_message [] messages) = Some m"
    and "m \<in> {''PUT'', ''POST'', ''PATCH''}"
    and "findall match_url_at (user_message [] messages) = api_url # other_urls"
    and "case findall match_json_at (user_message [] messages) of
           [] \<Rightarrow> True
         | w # ws \<Rightarrow> json_loads w = None"
  shows "\<exists>response c.
           node_api_exec json_loads now transport messages =
             (Executed \<lparr>base_url = api_url, http_method = Some m, query_params = Some [],
                        headers = Some [(''Content-Type'', ''application/json'')],
                        body = placeholder_body m now\<rparr> response, [c])
           \<and> verb c = m \<and> call_url c = api_url \<and> call_json c = placeholder_body m now"
proof -
  let ?rd = "\<lparr>base_url = api_url, http_method = Some m, query_params = Some [],
              headers = Some [(''Content-Type'', ''application/json'')],
              body = placeholder_body m now\<rparr>"
  have b: "request_body_for json_loads now m (user_message [] messages) = placeholder_body m now"
    using assms(2,4) by (rule request_body_for_placeholder)
  have c: "api_call ?rd =
             request_call m api_url (placeholder_body m now) None (Some [])
               (set_default ''User-Agent'' ''Multi-Agent-Chatbot/1.0''
                  [(''Content-Type'', ''application/json'')])"
    using assms(2) by (auto simp: api_call_body upper_body_methods)
  have n: "node_api_exec json_loads now transport messages =
             (Executed ?rd (fst (execute_api_request transport ?rd)),
              snd (execute_api_request transport ?rd))"
    using assms(1,3) b by (simp add: node_api_exec_def Let_def split_beta)
  show ?thesis
    unfolding n api_request_calls c
    by (simp add: request_call_def)
qed

theorem placeholder_body_attached_witness:
  "detected_method (user_message []
      [\<lparr>content = Some ''update https://example.test/posts/1 now'', msg_type = Some ''human'',
        msg_role = None\<rparr>]) = Some ''PUT''
   \<and> findall match_url_at (user_message []
      [\<lparr>content = Some ''update https://example.test/posts/1 now'', msg_type = Some ''human'',
        msg_role = None\<rparr>]) = [''https://example.test/posts/1'']
   \<and> findall match_json_at (user_message []
      [\<lparr>content = Some ''update https://example.test/posts/1 now'', msg_type = Some ''human'',
        msg_role = None\<rparr>]) = []
   \<and> (\<exists>response c.
         node_api_exec loads_table 1700000000 (answering 200 (Some (JObj [])) [])
           [\<lparr>content = Some ''update https://example.test/posts/1 now'',
             msg_type = Some ''human'', msg_role = None\<rparr>]
         = (Executed \<lparr>base_url = ''https://example.test/posts/1'', http_method = Some ''PUT'',
                      query_params = Some [],
                      headers = Some [(''Content-Type'', ''application/json'')],
                      body = JObj [(''updated'', JBool True), (''timestamp'', JNum 1700000000)]\<rparr>
              response, [c])
         \<and> verb c = ''PUT''
         \<and> call_json c = JObj [(''updated'', JBool True), (''timestamp'', JNum 1700000000)])"
proof -
  let ?msgs = "[\<lparr>content = Some ''update https://example.test/posts/1 now'',
                 msg_type = Some ''human'', msg_role = None\<rparr>]"
  have h1: "detected_method (user_message [] ?msgs) = Some ''PUT''" by code_simp
  have h2: "''PUT'' \<in> {''PUT'', ''POST'', ''PATCH''}" by simp
  have h3: "findall match_url_at (user_message [] ?msgs) = ''https://example.test/posts/1'' # []"
    by code_simp
  have j: "findall match_json_at (user_message [] ?msgs) = []" by code_simp
  have h4: "case findall match_json_at (user_message [] ?msgs) of
              [] \<Rightarrow> True | w # ws \<Rightarrow> loads_table w = None"
    unfolding j by simp
  have p: "placeholder_body ''PUT'' 1700000000
             = JObj [(''updated'', JBool True), (''timestamp'', JNum 1700000000)]"
    by (simp add: placeholder_body_def placeholder_flag_def)
  note t = placeholder_body_attached [where messages = ?msgs and m = "''PUT''"
      and api_url = "''https://example.test/posts/1''" and other_urls = "[]"
      and json_loads = loads_table and now = 1700000000
      and transport = "answering 200 (Some (JObj [])) []", OF h1 h2 h3 h4]
  show ?thesis
    using h1 h3 j t unfolding p by auto
qed

end
